theory Spec2Isabelle
  imports Complex_Main "HOL-Library.Multiset"
begin

section \<open>Data model of the node store\<close>

text \<open>
  The observable store of \<^verbatim>\<open>app/src/store/stores/nodeStore.ts\<close> and the
  context hooks of the store provider, as a shallow embedding. A method of
  \<^verbatim>\<open>NodeStore\<close> becomes a function from the store's fields to the updated
  fields together with the list of calls it makes on its collaborators (logger,
  RPC client, UI store, clipboard), in the order the source makes them.
\<close>

text \<open>
  \<^verbatim>\<open>Big\<close> values are arbitrary-precision decimals; \<^verbatim>\<open>plus\<close> is exact
  on them. The rationals contain every decimal and are closed under addition.
\<close>

type_synonym Big = rat

text \<open>The \<^verbatim>\<open>Wallet\<close> model: the two balances the store reads and writes.\<close>

record Wallet =
  channelBalance :: Big
  walletBalance :: Big

text \<open>
  \<^verbatim>\<open>NodeChain\<close> and \<^verbatim>\<open>NodeNetwork\<close> are unions of string literals,
  and \<^verbatim>\<open>fetchInfo\<close> fills them with an unchecked \<^verbatim>\<open>as\<close> cast of
  the response's strings: at run time they hold whatever string the response carried.
\<close>

type_synonym NodeChain = string
type_synonym NodeNetwork = string

text \<open>
  The fields of \<^verbatim>\<open>NodeStore\<close>. \<^verbatim>\<open>pubkey\<close> and \<^verbatim>\<open>alias\<close>
  are assigned from response fields with no check, so they hold
  \<^verbatim>\<open>undefined\<close> (\<open>None\<close>) when the response lacks the field.
\<close>

record NodeStore =
  knownTxns :: "string list"
  pubkey :: "string option"
  "alias" :: "string option"
  url :: string
  chain :: NodeChain
  network :: NodeNetwork
  wallet :: Wallet

text \<open>A rejected promise or a thrown \<^verbatim>\<open>Error\<close>, with its message.\<close>

datatype Error = Error string

text \<open>
  The calls a method makes on its collaborators: \<^verbatim>\<open>_store.log.info(msg, ...)\<close>
  (the message is kept, the logged snapshot is not), an RPC of
  \<^verbatim>\<open>_store.api.lnd\<close>, \<^verbatim>\<open>copyToClipboard(text)\<close>,
  \<^verbatim>\<open>_store.uiStore.notify(message, title, type)\<close> and
  \<^verbatim>\<open>_store.uiStore.handleError(error, title)\<close>.
\<close>

datatype effect =
    LogInfo string
  | ApiCall string
  | ClipboardWrite "string option"
  | Notify string string string
  | HandleError Error string

subsection \<open>The constructor\<close>

text \<open>
  Field initialisers of the class. \<^verbatim>\<open>new Wallet()\<close> is not part of the file;
  the balances a new wallet starts with are a parameter.
\<close>

definition newNodeStore :: "Wallet \<Rightarrow> NodeStore" where
  "newNodeStore w =
     \<lparr>knownTxns = [], pubkey = Some [], alias = Some [], url = [],
      chain = ''bitcoin'', network = ''mainnet'', wallet = w\<rparr>"

subsection \<open>\<^verbatim>\<open>onTransaction\<close>\<close>

text \<open>The fields of \<^verbatim>\<open>Transaction.AsObject\<close> that the store reads.\<close>

record Transaction =
  txHash :: string
  amount :: Big

definition onTransaction :: "Transaction \<Rightarrow> NodeStore \<Rightarrow> NodeStore \<times> effect list" where
  "onTransaction transaction s =
     (if txHash transaction \<in> set (knownTxns s)
      then (s, [LogInfo ''handle incoming transaction''])
      else
        (s\<lparr>knownTxns := knownTxns s @ [txHash transaction],
           wallet := (wallet s)\<lparr>walletBalance :=
             walletBalance (wallet s) + amount transaction\<rparr>\<rparr>,
         [LogInfo ''handle incoming transaction'',
          LogInfo ''updated nodeStore.wallet'']))"

text \<open>A sequence of \<^verbatim>\<open>onTransaction\<close> calls, first call first.\<close>

fun onTransactions :: "Transaction list \<Rightarrow> NodeStore \<Rightarrow> NodeStore" where
  "onTransactions [] s = s"
| "onTransactions (t # ts) s = onTransactions ts (fst (onTransaction t s))"

subsection \<open>\<^verbatim>\<open>copy\<close>\<close>

text \<open>The parameter type \<^verbatim>\<open>'pubkey' | 'alias' | 'url'\<close>.\<close>

datatype CopyKey = Pubkey | Alias | Url

text \<open>The key as the string the template literal interpolates.\<close>

fun keyName :: "CopyKey \<Rightarrow> string" where
  "keyName Pubkey = ''pubkey''"
| "keyName Alias = ''alias''"
| "keyName Url = ''url''"

text \<open>The property read \<^verbatim>\<open>this[key]\<close>.\<close>

fun getField :: "CopyKey \<Rightarrow> NodeStore \<Rightarrow> string option" where
  "getField Pubkey s = pubkey s"
| "getField Alias s = alias s"
| "getField Url s = Some (url s)"

definition copy :: "CopyKey \<Rightarrow> NodeStore \<Rightarrow> NodeStore \<times> effect list" where
  "copy key s =
     (let msg = ''Copied '' @ keyName key @ '' to clipboard''
      in (s, [ClipboardWrite (getField key s), Notify msg [] ''success'']))"

subsection \<open>\<^verbatim>\<open>fetchInfo\<close>\<close>

text \<open>
  The fields of the \<^verbatim>\<open>getInfo\<close> response that the store reads. The source
  tests the two lists for presence before it reads them and reads the two strings
  with no test; a field the response lacks reads as \<^verbatim>\<open>undefined\<close>
  (\<open>None\<close>). The prefixes \<open>c_\<close> and \<open>i_\<close> keep the field names apart from the
  store's fields of the same name.
\<close>

record Chain =
  c_chain :: string
  c_network :: string

record GetInfoResponse =
  identityPubkey :: "string option"
  i_alias :: "string option"
  chainsList :: "Chain list option"
  urisList :: "string list option"

text \<open>
  The body of the \<^verbatim>\<open>runInAction\<close> callback: the four assignments in the
  order of the source. \<^verbatim>\<open>info.chainsList && info.chainsList[0]\<close> holds when
  the list is present and has a first element, and
  \<^verbatim>\<open>info.urisList && info.urisList.length > 0\<close> likewise.
\<close>

definition getInfoContinuation :: "GetInfoResponse \<Rightarrow> NodeStore \<Rightarrow> NodeStore" where
  "getInfoContinuation info s =
     (let s1 = s\<lparr>pubkey := identityPubkey info\<rparr>;
          s2 = s1\<lparr>alias := i_alias info\<rparr>;
          s3 = (case chainsList info of
                  Some (c # cs) \<Rightarrow> s2\<lparr>chain := c_chain c, network := c_network c\<rparr>
                | _ \<Rightarrow> s2);
          s4 = (case urisList info of
                  Some (u # us) \<Rightarrow> s3\<lparr>url := u\<rparr>
                | _ \<Rightarrow> s3)
      in s4)"

text \<open>
  \<^verbatim>\<open>fetchInfo\<close> for one outcome of the awaited RPC: \<open>Inr\<close> the response,
  \<open>Inl\<close> the rejection. The method writes the store only in the continuation,
  after the promise has settled, so \<open>s\<close> is the store at that moment.
\<close>

definition fetchInfo :: "Error + GetInfoResponse \<Rightarrow> NodeStore \<Rightarrow> NodeStore \<times> effect list" where
  "fetchInfo getInfo s =
     (case getInfo of
        Inr info \<Rightarrow>
          (getInfoContinuation info s,
           [LogInfo ''fetching node info'', ApiCall ''getInfo'',
            LogInfo ''updated nodeStore info''])
      | Inl error \<Rightarrow>
          (s,
           [LogInfo ''fetching node info'', ApiCall ''getInfo'',
            HandleError error ''Unable to fetch node info'']))"

subsection \<open>\<^verbatim>\<open>fetchBalances\<close>\<close>

text \<open>
  The responses of the two balance RPCs, each field as the decimal that
  \<^verbatim>\<open>Big(...)\<close> makes of it.
\<close>

record ChannelBalanceResponse =
  balance :: Big

record WalletBalanceResponse =
  totalBalance :: Big

text \<open>
  The two RPCs are awaited one after the other inside one \<^verbatim>\<open>try\<close>: a
  rejection of the first skips the second call, and a rejection of either skips the
  \<^verbatim>\<open>runInAction\<close> callback, the only place that writes the wallet.
\<close>

definition fetchBalances ::
  "Error + ChannelBalanceResponse \<Rightarrow> Error + WalletBalanceResponse \<Rightarrow> NodeStore
     \<Rightarrow> NodeStore \<times> effect list" where
  "fetchBalances channelBalanceRpc walletBalanceRpc s =
     (case channelBalanceRpc of
        Inl error \<Rightarrow>
          (s,
           [LogInfo ''fetching node balances'', ApiCall ''channelBalance'',
            HandleError error ''Unable to fetch balances''])
      | Inr offChain \<Rightarrow>
          (case walletBalanceRpc of
             Inl error \<Rightarrow>
               (s,
                [LogInfo ''fetching node balances'', ApiCall ''channelBalance'',
                 ApiCall ''walletBalance'',
                 HandleError error ''Unable to fetch balances''])
           | Inr onChain \<Rightarrow>
               (s\<lparr>wallet := (wallet s)\<lparr>channelBalance := balance offChain,
                                         walletBalance := totalBalance onChain\<rparr>\<rparr>,
                [LogInfo ''fetching node balances'', ApiCall ''channelBalance'',
                 ApiCall ''walletBalance'',
                 LogInfo ''updated nodeStore.wallet''])))"

subsection \<open>\<^verbatim>\<open>fetchBalancesThrottled\<close>\<close>




subsection \<open>\<^verbatim>\<open>urlLabel\<close>\<close>

text \<open>
  \<^verbatim>\<open>String.prototype.split\<close> with a separator of one character: the pieces
  between the separators, in order; the empty string gives one empty piece. The
  result is never empty, so the \<open>[]\<close> branch of the \<^theory_text>\<open>case\<close> is never taken.
\<close>

fun split :: "char \<Rightarrow> string \<Rightarrow> string list" where
  "split sep [] = [[]]"
| "split sep (x # xs) =
     (if x = sep then [] # split sep xs
      else (case split sep xs of
              [] \<Rightarrow> [[x]]
            | piece # pieces \<Rightarrow> (x # piece) # pieces))"

text \<open>
  The getter. \<^verbatim>\<open>ellipseInside\<close> lives in \<^verbatim>\<open>util/strings\<close> and is a
  parameter here. The destructuring \<^verbatim>\<open>[pubkey, host]\<close> takes the first two
  pieces (\<open>pubkeyPart\<close> and \<open>host\<close>); with one piece \<^verbatim>\<open>host\<close> is \<^verbatim>\<open>undefined\<close>, which
  \<^verbatim>\<open>!host\<close> treats like the empty string.
\<close>

definition urlLabel :: "(string \<Rightarrow> string) \<Rightarrow> NodeStore \<Rightarrow> string" where
  "urlLabel ellipseInside s =
     (if url s = [] then []
      else
        (case split CHR ''@'' (url s) of
           pubkeyPart # host # rest \<Rightarrow>
             (if host = [] then [] else ellipseInside pubkeyPart @ ''@'' @ host)
         | _ \<Rightarrow> []))"

section \<open>The store context and its hooks\<close>

text \<open>
  \<^verbatim>\<open>ContextData\<close>, over any type of store and of actions.
\<close>

record ('store, 'actions) ContextData =
  store :: 'store
  actions :: 'actions

text \<open>
  \<^verbatim>\<open>StoreProvider\<close> builds the context value of its subtree.
  \<^verbatim>\<open>createActions\<close> lives in the \<^verbatim>\<open>action\<close> module and is a
  parameter; \<^verbatim>\<open>useLocalStore(() => store)\<close> hands back the store it was
  given on the first render.
\<close>

definition StoreProvider ::
  "('store \<Rightarrow> 'actions) \<Rightarrow> 'store \<Rightarrow> 'actions option \<Rightarrow> ('store, 'actions) ContextData" where
  "StoreProvider createActions st acts =
     \<lparr>store = st,
      actions = (case acts of Some a \<Rightarrow> a | None \<Rightarrow> createActions st)\<rparr>"

text \<open>
  \<^verbatim>\<open>useContext(StoreContext)\<close> in a component whose \<^verbatim>\<open>StoreContext.Provider\<close>
  ancestors carry the values \<open>providers\<close>, the nearest first: the nearest value,
  or the context's default \<^verbatim>\<open>undefined\<close> when there is no such ancestor.
\<close>

definition useContext :: "'c list \<Rightarrow> 'c option" where
  "useContext providers = (case providers of [] \<Rightarrow> None | c # outer \<Rightarrow> Some c)"

definition useStore :: "('store, 'actions) ContextData list \<Rightarrow> Error + 'store" where
  "useStore providers =
     (case useContext providers of
        None \<Rightarrow> Inl (Error ''useStore must be used within a StoreProvider.'')
      | Some data \<Rightarrow> Inr (store data))"

definition useActions :: "('store, 'actions) ContextData list \<Rightarrow> Error + 'actions" where
  "useActions providers =
     (case useContext providers of
        None \<Rightarrow> Inl (Error ''useActions must be used within a StoreProvider.'')
      | Some data \<Rightarrow> Inr (actions data))"

section \<open>Transactions\<close>

lemma onTransaction_fresh:
  "txHash t \<notin> set (knownTxns s) \<Longrightarrow>
     fst (onTransaction t s) =
       s\<lparr>knownTxns := knownTxns s @ [txHash t],
         wallet := (wallet s)\<lparr>walletBalance := walletBalance (wallet s) + amount t\<rparr>\<rparr>"
  by (simp add: onTransaction_def)

lemma onTransactions_fresh_sum:
  "distinct (map txHash ts) \<Longrightarrow> set (map txHash ts) \<inter> set (knownTxns s) = {} \<Longrightarrow>
     walletBalance (wallet (onTransactions ts s)) =
       walletBalance (wallet s) + sum_list (map amount ts)"
proof (induction ts arbitrary: s)
  case Nil
  then show ?case by simp
next
  case (Cons t ts)
  from Cons.prems have fresh: "txHash t \<notin> set (knownTxns s)" by auto
  let ?s1 = "fst (onTransaction t s)"
  have known1: "knownTxns ?s1 = knownTxns s @ [txHash t]"
    using fresh by (simp add: onTransaction_fresh)
  have bal1: "walletBalance (wallet ?s1) = walletBalance (wallet s) + amount t"
    using fresh by (simp add: onTransaction_fresh)
  have d: "distinct (map txHash ts)" using Cons.prems(1) by simp
  have disj: "set (map txHash ts) \<inter> set (knownTxns ?s1) = {}"
    using Cons.prems known1 by auto
  have "walletBalance (wallet (onTransactions ts ?s1)) =
          walletBalance (wallet ?s1) + sum_list (map amount ts)"
    by (rule Cons.IH [OF d disj])
  then show ?case using bal1 by simp
qed

text \<open>
  C2, as stated, at a store that already knows the hash: the known list holds
  \<open>h1\<close> and the balance is 10; two calls with a transaction of hash \<open>h1\<close> and
  amount 5 leave the balance at 10, where the claim has it change by 5 once.
\<close>

theorem onTransaction_twice_known_counterexample:
  "walletBalance (wallet (fst (onTransaction \<lparr>txHash = ''h1'', amount = 5\<rparr>
     (fst (onTransaction \<lparr>txHash = ''h1'', amount = 5\<rparr>
        \<lparr>knownTxns = [''h1''], pubkey = Some ''02ab'', alias = Some ''node'',
         url = ''02ab@host:9735'', chain = ''bitcoin'', network = ''mainnet'',
         wallet = \<lparr>channelBalance = 3, walletBalance = 10\<rparr>\<rparr>))))) = 10"
  by (simp add: onTransaction_def)

text \<open>
  C2, amended: a second \<^verbatim>\<open>onTransaction\<close> call with the hash of the first
  leaves the whole store as the first call left it, in every state and whatever
  amount the second transaction carries. The first call adds \<open>tx.amount\<close> to
  \<open>walletBalance\<close> when the hash is not yet in the known list, and changes no
  balance when it is; \<open>channelBalance\<close> stays as it was. So the two calls
  together change \<open>walletBalance\<close> by \<open>tx.amount\<close> exactly once from a state
  that does not know the hash, and not at all from one that does.
\<close>

theorem onTransaction_twice:
  assumes "txHash tx' = txHash tx"
  shows "fst (onTransaction tx' (fst (onTransaction tx s))) = fst (onTransaction tx s) \<and>
         walletBalance (wallet (fst (onTransaction tx s))) =
           (if txHash tx \<in> set (knownTxns s) then walletBalance (wallet s)
            else walletBalance (wallet s) + amount tx) \<and>
         channelBalance (wallet (fst (onTransaction tx s))) = channelBalance (wallet s)"
  using assms by (simp add: onTransaction_def)

text \<open>
  The amended C2 on a store with balance 10 that knows no hash: a transaction
  \<open>h1\<close> of amount 5, then one with the same hash and amount 7, end at 15.
\<close>

theorem onTransaction_twice_witness:
  "txHash \<lparr>txHash = ''h1'', amount = 7\<rparr> = txHash \<lparr>txHash = ''h1'', amount = 5\<rparr> \<and>
   fst (onTransaction \<lparr>txHash = ''h1'', amount = 7\<rparr>
     (fst (onTransaction \<lparr>txHash = ''h1'', amount = 5\<rparr>
        \<lparr>knownTxns = [], pubkey = Some ''02ab'', alias = Some ''node'',
         url = ''02ab@host:9735'', chain = ''bitcoin'', network = ''mainnet'',
         wallet = \<lparr>channelBalance = 3, walletBalance = 10\<rparr>\<rparr>))) =
     \<lparr>knownTxns = [''h1''], pubkey = Some ''02ab'', alias = Some ''node'',
      url = ''02ab@host:9735'', chain = ''bitcoin'', network = ''mainnet'',
      wallet = \<lparr>channelBalance = 3, walletBalance = 15\<rparr>\<rparr>"
  using onTransaction_twice [of "\<lparr>txHash = ''h1'', amount = 7\<rparr>"
      "\<lparr>txHash = ''h1'', amount = 5\<rparr>"
      "\<lparr>knownTxns = [], pubkey = Some ''02ab'', alias = Some ''node'',
        url = ''02ab@host:9735'', chain = ''bitcoin'', network = ''mainnet'',
        wallet = \<lparr>channelBalance = 3, walletBalance = 10\<rparr>\<rparr>"]
  by (simp add: onTransaction_def)

text \<open>
  C4, as stated, at a store that already knows one of the hashes: the known list
  holds \<open>h1\<close> and the balance is 10; the calls for \<open>h1\<close> (amount 5) and
  \<open>h2\<close> (amount 7), two distinct hashes, end at 17, not at \<open>10 + 5 + 7\<close>.
\<close>

theorem onTransactions_known_counterexample:
  "walletBalance (wallet (onTransactions
     [\<lparr>txHash = ''h1'', amount = 5\<rparr>, \<lparr>txHash = ''h2'', amount = 7\<rparr>]
     \<lparr>knownTxns = [''h1''], pubkey = Some ''02ab'', alias = Some ''node'',
      url = ''02ab@host:9735'', chain = ''bitcoin'', network = ''mainnet'',
      wallet = \<lparr>channelBalance = 3, walletBalance = 10\<rparr>\<rparr>)) = 17"
  by (simp add: onTransaction_def)

text \<open>
  C4, amended: for every finite sequence of transactions with pairwise distinct
  hashes, none of them in the known list when the calls start (as on a store that
  has taken no transaction yet), the calls made in any order \<open>txs'\<close> of the
  sequence \<open>txs\<close> end with \<open>walletBalance\<close> at its initial value plus the
  sum of the amounts.
\<close>

theorem onTransactions_sum:
  assumes "distinct (map txHash txs)"
    and "set (map txHash txs) \<inter> set (knownTxns s) = {}"
    and "mset txs' = mset txs"
  shows "walletBalance (wallet (onTransactions txs' s)) =
           walletBalance (wallet s) + sum_list (map amount txs)"
proof -
  have m: "mset (map txHash txs') = mset (map txHash txs)"
    using assms(3) by simp
  have d: "distinct (map txHash txs')"
    using assms(1) m by (metis mset_eq_imp_distinct_iff)
  have s: "set (map txHash txs') = set (map txHash txs)"
    using m by (rule mset_eq_setD)
  have "sum_list (map amount txs') = sum_list (map amount txs)"
    using assms(3) by (metis mset_map sum_mset_sum_list)
  moreover have "walletBalance (wallet (onTransactions txs' s)) =
           walletBalance (wallet s) + sum_list (map amount txs')"
    using d assms(2) s by (intro onTransactions_fresh_sum) simp_all
  ultimately show ?thesis by simp
qed

text \<open>
  The amended C4 on a new store whose wallet holds 10: an incoming 5 and an
  outgoing 3, applied in the other order, end at 12.
\<close>

theorem onTransactions_sum_witness:
  "distinct (map txHash [\<lparr>txHash = ''h1'', amount = 5\<rparr>, \<lparr>txHash = ''h2'', amount = - 3\<rparr>]) \<and>
   set (map txHash [\<lparr>txHash = ''h1'', amount = 5\<rparr>, \<lparr>txHash = ''h2'', amount = - 3\<rparr>]) \<inter>
     set (knownTxns (newNodeStore \<lparr>channelBalance = 0, walletBalance = 10\<rparr>)) = {} \<and>
   mset [\<lparr>txHash = ''h2'', amount = - 3\<rparr>, \<lparr>txHash = ''h1'', amount = 5\<rparr>] =
     mset [\<lparr>txHash = ''h1'', amount = 5\<rparr>, \<lparr>txHash = ''h2'', amount = - 3\<rparr>] \<and>
   walletBalance (wallet (onTransactions
     [\<lparr>txHash = ''h2'', amount = - 3\<rparr>, \<lparr>txHash = ''h1'', amount = 5\<rparr>]
     (newNodeStore \<lparr>channelBalance = 0, walletBalance = 10\<rparr>))) = 12"
proof -
  have d: "distinct (map txHash [\<lparr>txHash = ''h1'', amount = 5\<rparr>, \<lparr>txHash = ''h2'', amount = - 3\<rparr>])"
    by simp
  have k: "set (map txHash [\<lparr>txHash = ''h1'', amount = 5\<rparr>, \<lparr>txHash = ''h2'', amount = - 3\<rparr>]) \<inter>
     set (knownTxns (newNodeStore \<lparr>channelBalance = 0, walletBalance = 10\<rparr>)) = {}"
    by (simp add: newNodeStore_def)
  have m: "mset [\<lparr>txHash = ''h2'', amount = - 3\<rparr>, \<lparr>txHash = ''h1'', amount = 5\<rparr>] =
     mset [\<lparr>txHash = ''h1'', amount = 5\<rparr>, \<lparr>txHash = ''h2'', amount = - 3\<rparr>]"
    by (simp add: add_mset_commute)
  show ?thesis
    using d k m onTransactions_sum [OF d k m]
    by (simp add: newNodeStore_def)
qed

text \<open>
  C9: \<^verbatim>\<open>onTransaction\<close> writes \<open>walletBalance\<close> and the known list only: in
  every state and for every transaction, \<open>pubkey\<close>, \<open>alias\<close>, \<open>url\<close>,
  \<open>chain\<close>, \<open>network\<close> and \<open>wallet.channelBalance\<close> are after the call
  what they were before it.
\<close>

theorem onTransaction_frame:
  "pubkey (fst (onTransaction tx s)) = pubkey s \<and>
   alias (fst (onTransaction tx s)) = alias s \<and>
   url (fst (onTransaction tx s)) = url s \<and>
   chain (fst (onTransaction tx s)) = chain s \<and>
   network (fst (onTransaction tx s)) = network s \<and>
   channelBalance (wallet (fst (onTransaction tx s))) = channelBalance (wallet s)"
  by (simp add: onTransaction_def)

section \<open>Fetching node info and balances\<close>

text \<open>
  C1, as stated, at a response that lacks both \<open>identityPubkey\<close> and
  \<open>alias\<close> and carries the two lists of the scenario: the store held the
  pubkey \<open>02ab\<close> and the alias \<open>node\<close> and ends with both
  \<^verbatim>\<open>undefined\<close>, where the claim has them unchanged; chain, network and
  url end as the claim says.
\<close>

theorem fetchInfo_absent_pubkey_counterexample:
  "fst (fetchInfo
     (Inr \<lparr>identityPubkey = None, i_alias = None,
           chainsList = Some [\<lparr>c_chain = ''litecoin'', c_network = ''testnet''\<rparr>],
           urisList = Some [''abc@host:1'']\<rparr>)
     \<lparr>knownTxns = [], pubkey = Some ''02ab'', alias = Some ''node'',
      url = ''02ab@host:9735'', chain = ''bitcoin'', network = ''mainnet'',
      wallet = \<lparr>channelBalance = 3, walletBalance = 10\<rparr>\<rparr>) =
   \<lparr>knownTxns = [], pubkey = None, alias = None,
    url = ''abc@host:1'', chain = ''litecoin'', network = ''testnet'',
    wallet = \<lparr>channelBalance = 3, walletBalance = 10\<rparr>\<rparr>"
  by (simp add: fetchInfo_def getInfoContinuation_def)

text \<open>
  C1, amended: when \<^verbatim>\<open>getInfo\<close> resolves, \<open>chain\<close> and \<open>network\<close>
  are taken from the first element of \<open>chainsList\<close> and \<open>url\<close> from the
  first element of \<open>urisList\<close>, and each keeps its previous value when its
  list is absent or empty; \<open>pubkey\<close> and \<open>alias\<close> are overwritten with the
  response's \<open>identityPubkey\<close> and \<open>alias\<close> whatever they are, so a
  response that lacks them does not keep the prior values. The wallet and the known
  list are not touched.
\<close>

theorem fetchInfo_resolved:
  "fst (fetchInfo (Inr info) s) =
     s\<lparr>pubkey := identityPubkey info,
       alias := i_alias info,
       chain := (case chainsList info of
                   None \<Rightarrow> chain s | Some [] \<Rightarrow> chain s | Some (c # cs) \<Rightarrow> c_chain c),
       network := (case chainsList info of
                   None \<Rightarrow> network s | Some [] \<Rightarrow> network s | Some (c # cs) \<Rightarrow> c_network c),
       url := (case urisList info of
                   None \<Rightarrow> url s | Some [] \<Rightarrow> url s | Some (u # us) \<Rightarrow> u)\<rparr>"
  by (simp add: fetchInfo_def getInfoContinuation_def split: option.split list.split)

text \<open>
  The amended C1 on the scenario's lists, with a response that carries a pubkey and
  an alias and a second uri that is not used.
\<close>

theorem fetchInfo_resolved_witness:
  "fst (fetchInfo
     (Inr \<lparr>identityPubkey = Some ''03cd'', i_alias = Some ''carol'',
           chainsList = Some [\<lparr>c_chain = ''litecoin'', c_network = ''testnet''\<rparr>],
           urisList = Some [''abc@host:1'', ''abc@other:2'']\<rparr>)
     \<lparr>knownTxns = [''h1''], pubkey = Some ''02ab'', alias = Some ''node'',
      url = ''02ab@host:9735'', chain = ''bitcoin'', network = ''mainnet'',
      wallet = \<lparr>channelBalance = 3, walletBalance = 10\<rparr>\<rparr>) =
   \<lparr>knownTxns = [''h1''], pubkey = Some ''03cd'', alias = Some ''carol'',
    url = ''abc@host:1'', chain = ''litecoin'', network = ''testnet'',
    wallet = \<lparr>channelBalance = 3, walletBalance = 10\<rparr>\<rparr>"
  using fetchInfo_resolved [of
      "\<lparr>identityPubkey = Some ''03cd'', i_alias = Some ''carol'',
        chainsList = Some [\<lparr>c_chain = ''litecoin'', c_network = ''testnet''\<rparr>],
        urisList = Some [''abc@host:1'', ''abc@other:2'']\<rparr>"
      "\<lparr>knownTxns = [''h1''], pubkey = Some ''02ab'', alias = Some ''node'',
        url = ''02ab@host:9735'', chain = ''bitcoin'', network = ''mainnet'',
        wallet = \<lparr>channelBalance = 3, walletBalance = 10\<rparr>\<rparr>"]
  by simp

text \<open>
  C3: \<^verbatim>\<open>fetchBalances\<close> writes both balances or none. When the
  \<^verbatim>\<open>walletBalance\<close> RPC rejects after \<^verbatim>\<open>channelBalance\<close> has
  resolved, the store is what it was, \<open>wallet.channelBalance\<close> in particular;
  the same holds when \<^verbatim>\<open>channelBalance\<close> rejects, whatever the second RPC
  would have answered. In both cases the error goes to \<^verbatim>\<open>handleError\<close>.
\<close>

theorem fetchBalances_all_or_nothing:
  "fst (fetchBalances (Inr offChain) (Inl e) s) = s \<and>
   channelBalance (wallet (fst (fetchBalances (Inr offChain) (Inl e) s))) =
     channelBalance (wallet s) \<and>
   walletBalance (wallet (fst (fetchBalances (Inr offChain) (Inl e) s))) =
     walletBalance (wallet s) \<and>
   last (snd (fetchBalances (Inr offChain) (Inl e) s)) =
     HandleError e ''Unable to fetch balances'' \<and>
   fst (fetchBalances (Inl e) walletBalanceRpc s) = s \<and>
   last (snd (fetchBalances (Inl e) walletBalanceRpc s)) =
     HandleError e ''Unable to fetch balances''"
  by (simp add: fetchBalances_def)

text \<open>
  The store of C3's scenario: the channel balance RPC answers 50, the wallet
  balance RPC rejects, and the wallet still holds 3 and 10.
\<close>

theorem fetchBalances_all_or_nothing_witness:
  "wallet (fst (fetchBalances (Inr \<lparr>balance = 50\<rparr>) (Inl (Error ''unavailable''))
     \<lparr>knownTxns = [], pubkey = Some ''02ab'', alias = Some ''node'',
      url = ''02ab@host:9735'', chain = ''bitcoin'', network = ''mainnet'',
      wallet = \<lparr>channelBalance = 3, walletBalance = 10\<rparr>\<rparr>)) =
   \<lparr>channelBalance = 3, walletBalance = 10\<rparr>"
  using fetchBalances_all_or_nothing [of "\<lparr>balance = 50\<rparr>" "Error ''unavailable''"
      "\<lparr>knownTxns = [], pubkey = Some ''02ab'', alias = Some ''node'',
        url = ''02ab@host:9735'', chain = ''bitcoin'', network = ''mainnet'',
        wallet = \<lparr>channelBalance = 3, walletBalance = 10\<rparr>\<rparr>"]
  by simp

section \<open>Copying a field\<close>

text \<open>
  C8: for each of the three keys and in every state, \<^verbatim>\<open>copy\<close> returns the
  store as it was, every field of it, and makes two calls on its collaborators and
  no other: the clipboard write of the field's value, then one \<open>success\<close>
  notification \<open>Copied <key> to clipboard\<close> with an empty title.
\<close>

theorem copy_frame:
  "fst (copy key s) = s \<and>
   snd (copy key s) =
     [ClipboardWrite (getField key s),
      Notify (''Copied '' @ keyName key @ '' to clipboard'') [] ''success'']"
  by (simp add: copy_def)

text \<open>C8 on the key \<open>url\<close>.\<close>

theorem copy_frame_witness:
  "copy Url
     \<lparr>knownTxns = [''h1''], pubkey = Some ''02ab'', alias = Some ''node'',
      url = ''02ab@host:9735'', chain = ''bitcoin'', network = ''mainnet'',
      wallet = \<lparr>channelBalance = 3, walletBalance = 10\<rparr>\<rparr> =
   (\<lparr>knownTxns = [''h1''], pubkey = Some ''02ab'', alias = Some ''node'',
      url = ''02ab@host:9735'', chain = ''bitcoin'', network = ''mainnet'',
      wallet = \<lparr>channelBalance = 3, walletBalance = 10\<rparr>\<rparr>,
    [ClipboardWrite (Some ''02ab@host:9735''),
     Notify ''Copied url to clipboard'' [] ''success''])"
  using copy_frame [of Url
      "\<lparr>knownTxns = [''h1''], pubkey = Some ''02ab'', alias = Some ''node'',
        url = ''02ab@host:9735'', chain = ''bitcoin'', network = ''mainnet'',
        wallet = \<lparr>channelBalance = 3, walletBalance = 10\<rparr>\<rparr>"]
  by (simp add: prod_eq_iff)

section \<open>The hooks\<close>

text \<open>
  C6: with no \<^verbatim>\<open>StoreProvider\<close> above the caller, \<^verbatim>\<open>useStore\<close> and
  \<^verbatim>\<open>useActions\<close> each throw their fixed message and return nothing; under
  a provider they return the store and the actions of the nearest provider's
  context, and for a context built by \<^verbatim>\<open>StoreProvider\<close> these are the
  store it was given and the actions it was given, or the actions made from the
  store when none were given.
\<close>

theorem hooks_fail_fast:
  "useStore ([] :: ('store, 'actions) ContextData list) =
     Inl (Error ''useStore must be used within a StoreProvider.'') \<and>
   useActions ([] :: ('store, 'actions) ContextData list) =
     Inl (Error ''useActions must be used within a StoreProvider.'') \<and>
   useStore (c # outer) = Inr (store c) \<and>
   useActions (c # outer) = Inr (actions c) \<and>
   useStore (StoreProvider createActions st acts # outer') = Inr st \<and>
   useActions (StoreProvider createActions st (Some a) # outer') = Inr a \<and>
   useActions (StoreProvider createActions st None # outer') = Inr (createActions st)"
  by (simp add: useStore_def useActions_def useContext_def StoreProvider_def)

section \<open>The url label\<close>

text \<open>
  \<open>split\<close> by its first piece: the text before the first separator, then the
  pieces of what follows that separator.
\<close>

lemma split_takeWhile:
  "split c s =
     takeWhile (\<lambda>x. x \<noteq> c) s #
       (case dropWhile (\<lambda>x. x \<noteq> c) s of [] \<Rightarrow> [] | y # r \<Rightarrow> split c r)"
  by (induction s) auto

lemma urlLabel_pieces:
  "urlLabel ell s =
     (let pubkeyPart = takeWhile (\<lambda>c. c \<noteq> CHR ''@'') (url s);
          afterAt = drop 1 (dropWhile (\<lambda>c. c \<noteq> CHR ''@'') (url s));
          host = takeWhile (\<lambda>c. c \<noteq> CHR ''@'') afterAt
      in if host = [] then [] else ell pubkeyPart @ ''@'' @ host)"
proof (cases "dropWhile (\<lambda>c. c \<noteq> CHR ''@'') (url s)")
  case Nil
  have "split CHR ''@'' (url s) = [takeWhile (\<lambda>c. c \<noteq> CHR ''@'') (url s)]"
    by (subst split_takeWhile) (simp only: Nil list.case)
  then show ?thesis
    by (simp only: urlLabel_def Let_def Nil list.case drop.simps takeWhile.simps) simp
next
  case (Cons y r)
  then have ne: "url s \<noteq> []" by auto
  have "split CHR ''@'' (url s) =
          takeWhile (\<lambda>c. c \<noteq> CHR ''@'') (url s) # split CHR ''@'' r"
    by (subst split_takeWhile) (simp only: Cons list.case)
  also have "split CHR ''@'' r =
          takeWhile (\<lambda>c. c \<noteq> CHR ''@'') r #
            (case dropWhile (\<lambda>c. c \<noteq> CHR ''@'') r of [] \<Rightarrow> [] | y # r' \<Rightarrow> split CHR ''@'' r')"
    by (rule split_takeWhile)
  finally show ?thesis using ne
    by (simp add: urlLabel_def Cons)
qed

lemma no_at_dropWhile:
  "c \<notin> set u \<Longrightarrow> dropWhile (\<lambda>x. x \<noteq> c) u = []"
  by (induction u) auto

lemma first_at:
  "c \<in> set u \<Longrightarrow>
     u = takeWhile (\<lambda>x. x \<noteq> c) u @ [c] @ drop 1 (dropWhile (\<lambda>x. x \<noteq> c) u)"
  by (induction u) auto

lemma count_takeWhile: "count_list (takeWhile (\<lambda>x. x \<noteq> c) u) c = 0"
  by (induction u) auto

text \<open>
  C7, as stated, at the url \<open>abc@\<close>: it is not empty and contains the
  separator, so the claim has the label be the shortened \<open>abc\<close> followed by
  \<open>@\<close> and the (empty) host, a string that is not empty; the getter returns the
  empty string, because \<^verbatim>\<open>!host\<close> holds for the empty second piece. The
  shortening function plays no part in this; it is the identity here.
\<close>

theorem urlLabel_empty_host_counterexample:
  "urlLabel id
     \<lparr>knownTxns = [], pubkey = Some ''abc'', alias = Some ''node'',
      url = ''abc@'', chain = ''bitcoin'', network = ''mainnet'',
      wallet = \<lparr>channelBalance = 3, walletBalance = 10\<rparr>\<rparr> = []"
  by (simp add: urlLabel_def)

text \<open>
  C7, amended: \<^verbatim>\<open>urlLabel\<close> is the empty string when \<open>url\<close> is empty,
  when it contains no \<open>@\<close>, and also when nothing stands between its first
  \<open>@\<close> and the next \<open>@\<close> or the end of the string; otherwise it is the text
  before the first \<open>@\<close> shortened by \<^verbatim>\<open>ellipseInside\<close>, followed by
  \<open>@\<close> and the host, the host being the text between the first \<open>@\<close> and the
  next \<open>@\<close> or the end.
\<close>

theorem urlLabel_spec:
  "urlLabel ell s =
     (let pubkeyPart = takeWhile (\<lambda>c. c \<noteq> CHR ''@'') (url s);
          afterAt = drop 1 (dropWhile (\<lambda>c. c \<noteq> CHR ''@'') (url s));
          host = takeWhile (\<lambda>c. c \<noteq> CHR ''@'') afterAt
      in if url s = [] then []
         else if CHR ''@'' \<notin> set (url s) then []
         else if host = [] then []
         else ell pubkeyPart @ ''@'' @ host)"
proof (cases "CHR ''@'' \<in> set (url s)")
  case True
  then have "url s \<noteq> []" by auto
  with True show ?thesis by (simp add: urlLabel_pieces Let_def)
next
  case False
  then show ?thesis by (simp add: urlLabel_pieces Let_def no_at_dropWhile)
qed

text \<open>
  The amended C7 on a url of the form \<open>pubkey@host\<close>, with a shortening
  function that keeps the first two characters.
\<close>

theorem urlLabel_spec_witness:
  "urlLabel (take 2)
     \<lparr>knownTxns = [], pubkey = Some ''02ab'', alias = Some ''node'',
      url = ''02ab@host:9735'', chain = ''bitcoin'', network = ''mainnet'',
      wallet = \<lparr>channelBalance = 3, walletBalance = 10\<rparr>\<rparr> = ''02@host:9735''"
  using urlLabel_spec [of "take 2"
      "\<lparr>knownTxns = [], pubkey = Some ''02ab'', alias = Some ''node'',
        url = ''02ab@host:9735'', chain = ''bitcoin'', network = ''mainnet'',
        wallet = \<lparr>channelBalance = 3, walletBalance = 10\<rparr>\<rparr>"]
  by simp

text \<open>
  C10, as stated, at the url \<open>a@@c\<close>: it contains two separators, so the
  claim has the label be the shortened \<open>a\<close>, \<open>@\<close> and the (empty) second
  segment, a string that is not empty; the getter returns the empty string. The
  shortening function plays no part in this; it is the identity here.
\<close>

theorem urlLabel_adjacent_ats_counterexample:
  "urlLabel id
     \<lparr>knownTxns = [], pubkey = Some ''a'', alias = Some ''node'',
      url = ''a@@c'', chain = ''bitcoin'', network = ''mainnet'',
      wallet = \<lparr>channelBalance = 3, walletBalance = 10\<rparr>\<rparr> = []"
  by (simp add: urlLabel_def)

text \<open>
  C10, amended: a url with more than one \<open>@\<close> is a first segment, \<open>@\<close>, a
  second segment, \<open>@\<close> and a remainder, neither segment containing \<open>@\<close>.
  When the second segment is not empty, \<^verbatim>\<open>urlLabel\<close> is the shortened first
  segment, \<open>@\<close> and the second segment only: the remainder after the second
  \<open>@\<close> is dropped. When the second segment is empty, the label is the empty
  string.
\<close>

theorem urlLabel_many_ats:
  assumes "2 \<le> count_list (url s) CHR ''@''"
  shows "(let pubkeyPart = takeWhile (\<lambda>c. c \<noteq> CHR ''@'') (url s);
              afterAt = drop 1 (dropWhile (\<lambda>c. c \<noteq> CHR ''@'') (url s));
              host = takeWhile (\<lambda>c. c \<noteq> CHR ''@'') afterAt;
              dropped = drop 1 (dropWhile (\<lambda>c. c \<noteq> CHR ''@'') afterAt)
          in url s = pubkeyPart @ ''@'' @ host @ ''@'' @ dropped \<and>
             CHR ''@'' \<notin> set pubkeyPart \<and> CHR ''@'' \<notin> set host \<and>
             urlLabel ell s = (if host = [] then [] else ell pubkeyPart @ ''@'' @ host))"
proof -
  let ?P = "\<lambda>c. c \<noteq> CHR ''@''"
  let ?u = "url s"
  let ?a = "drop 1 (dropWhile ?P ?u)"
  have in1: "CHR ''@'' \<in> set ?u"
    using assms by (metis count_list_0_iff not_numeral_le_zero)
  have u: "?u = takeWhile ?P ?u @ [CHR ''@''] @ ?a"
    using in1 by (rule first_at)
  have "count_list ?u CHR ''@'' = count_list (takeWhile ?P ?u @ [CHR ''@''] @ ?a) CHR ''@''"
    using u by simp
  then have "count_list ?u CHR ''@'' = 1 + count_list ?a CHR ''@''"
    by (simp add: count_takeWhile)
  with assms have "count_list ?a CHR ''@'' \<noteq> 0" by simp
  then have in2: "CHR ''@'' \<in> set ?a" by (simp add: count_list_0_iff)
  have a: "?a = takeWhile ?P ?a @ [CHR ''@''] @ drop 1 (dropWhile ?P ?a)"
    using in2 by (rule first_at)
  have n1: "CHR ''@'' \<notin> set (takeWhile ?P ?u)"
    by (metis (mono_tags, lifting) set_takeWhileD)
  have n2: "CHR ''@'' \<notin> set (takeWhile ?P ?a)"
    by (metis (mono_tags, lifting) set_takeWhileD)
  have dec: "?u = takeWhile ?P ?u @ ''@'' @ takeWhile ?P ?a @ ''@'' @ drop 1 (dropWhile ?P ?a)"
    using u a by simp
  show ?thesis
    unfolding Let_def using dec n1 n2 urlLabel_pieces [of ell s]
    by (simp add: Let_def)
qed

text \<open>
  The amended C10 on the url \<open>02ab@host:9735@extra\<close>, with a shortening
  function that keeps the first two characters: \<open>@extra\<close> is dropped.
\<close>

theorem urlLabel_many_ats_witness:
  "2 \<le> count_list (url
     \<lparr>knownTxns = [], pubkey = Some ''02ab'', alias = Some ''node'',
      url = ''02ab@host:9735@extra'', chain = ''bitcoin'', network = ''mainnet'',
      wallet = \<lparr>channelBalance = 3, walletBalance = 10\<rparr>\<rparr>) CHR ''@'' \<and>
   urlLabel (take 2)
     \<lparr>knownTxns = [], pubkey = Some ''02ab'', alias = Some ''node'',
      url = ''02ab@host:9735@extra'', chain = ''bitcoin'', network = ''mainnet'',
      wallet = \<lparr>channelBalance = 3, walletBalance = 10\<rparr>\<rparr> = ''02@host:9735''"
proof -
  have h: "2 \<le> count_list (url
     \<lparr>knownTxns = [], pubkey = Some ''02ab'', alias = Some ''node'',
      url = ''02ab@host:9735@extra'', chain = ''bitcoin'', network = ''mainnet'',
      wallet = \<lparr>channelBalance = 3, walletBalance = 10\<rparr>\<rparr>) CHR ''@''"
    by simp
  show ?thesis
    using h urlLabel_many_ats [OF h, of "take 2"]
    by simp
qed

section \<open>The throttled balance refresh\<close>








end
